theory Spec2Isabelle
  imports Complex_Main
begin

section \<open>Data model of the overlay\<close>

text \<open>
  The stats resolver of the overlay lives in \<^verbatim>\<open>examples/overlay/get_stats.py\<close> and the
  mutation protocol in \<^verbatim>\<open>examples/overlay/behaviour.py\<close>. Both work on an
  \<^verbatim>\<open>OverlayController\<close>: a player cache, a nick database, the settings and four outbound
  calls (\<^verbatim>\<open>get_uuid\<close>, \<^verbatim>\<open>denick\<close>, \<^verbatim>\<open>get_player_data\<close>, \<^verbatim>\<open>get_estimated_winstreaks\<close>).
  The outbound calls return \<^verbatim>\<open>None\<close> (or the \<^verbatim>\<open>MISSING_WINSTREAKS\<close> sentinel) when
  they fail, as the \<^verbatim>\<open>is None\<close> tests of the source show.
\<close>

text \<open>
  The record returned by the stats provider (\<^verbatim>\<open>PlayerData = dict[str, Any]\<close>). The
  resolver reads the key \<^verbatim>\<open>"displayname"\<close> only; \<open>None\<close> stands for a dict without that
  key. The other two fields are what the Known record is built from.
\<close>

record PlayerData =
  displayname :: "string option"
  bedwars_winstreak :: "int option"
  bedwars_stats :: "(string \<times> int) list"

text \<open>
  Modelled from the spec: \<^verbatim>\<open>examples/overlay/player.py\<close> is missing. A Known record has a
  uuid, a username, stats, a winstreak or the "winstreak unknown" marker (\<open>None\<close>), and the
  optional nickname the player hides behind; a Nicked record carries the observed nickname
  only; a Pending record is the placeholder of a fetch in flight.
\<close>

record KnownPlayer =
  uuid :: string
  username :: string
  nick :: "string option"
  stats :: "(string \<times> int) list"
  winstreak :: "int option"
  winstreak_accurate :: bool

datatype Player = Known KnownPlayer | Nicked string | Pending string

text \<open>
  The result of \<^verbatim>\<open>controller.get_estimated_winstreaks\<close>: the sentinel
  \<^verbatim>\<open>MISSING_WINSTREAKS\<close> (tested with \<^verbatim>\<open>is\<close>) or an estimate.
\<close>

datatype Estimate = MISSING_WINSTREAKS | Winstreaks "int option"

text \<open>
  Every outbound call and every read of the nick database is recorded, with its answer, in
  the order in which the code makes it.
\<close>

datatype Call =
    Get_uuid string "string option"
  | Get_default string "string option"
  | Denick_api string "string option"
  | Nick_get string "string option"
  | Get_player_data string "PlayerData option"
  | Get_estimated_winstreaks string "Estimate \<times> bool"

text \<open>
  The collaborators behind the controller. An answer may depend on everything that was asked
  before (the first argument), so that the same question can be answered differently the
  second time, as a network service does.
\<close>

record Providers =
  uuid_provider :: "Call list \<Rightarrow> string \<Rightarrow> string option"
  denick_provider :: "Call list \<Rightarrow> string \<Rightarrow> string option"
  playerdata_provider :: "Call list \<Rightarrow> string \<Rightarrow> PlayerData option"
  winstreaks_provider :: "Call list \<Rightarrow> string \<Rightarrow> Estimate \<times> bool"

text \<open>
  A value of \<^verbatim>\<open>settings.known_nicks\<close>: \<^verbatim>\<open>{"uuid": ..., "comment": ...}\<close>.
\<close>

record NickValue =
  nick_uuid :: string
  comment :: string

text \<open>
  \<^verbatim>\<open>known_nicks\<close> is a Python dict, which keeps insertion order; \<^verbatim>\<open>set_nickname\<close>
  iterates over it and stops at the first match, so the order is part of the model.
\<close>

type_synonym 'v pydict = "(string \<times> 'v) list"

record Settings =
  hypixel_api_key :: string
  antisniper_api_key :: "string option"
  use_antisniper_api :: bool
  known_nicks :: "NickValue pydict"

text \<open>
  Modelled from the spec: \<^verbatim>\<open>examples/overlay/nick_database.py\<close> is missing. The spec
  has an in-memory default/fallback binding table: the dict \<^verbatim>\<open>default_database\<close>, which
  the source writes directly and reads with \<^verbatim>\<open>get_default\<close> (log message "Denicked with
  default database"). The tests build the object from a list of dicts; \<^verbatim>\<open>get\<close> (log
  message "Denicked with database") reads all of them, the default one first. The dicts
  other than the default one are a parameter.
\<close>

record NickDatabase =
  default_database :: "string \<rightharpoonup> string"
  databases :: "(string \<rightharpoonup> string) list"

text \<open>
  \<^verbatim>\<open>examples/overlay/controller.py\<close> is missing; the fields are the attributes that
  \<^verbatim>\<open>get_stats.py\<close> and \<^verbatim>\<open>behaviour.py\<close> use. \<open>downloader_api_key\<close> is what
  \<^verbatim>\<open>controller.set_hypixel_api_key\<close> sets, \<open>settings_on_disk\<close> what
  \<^verbatim>\<open>controller.store_settings\<close> wrote last, and \<open>calls\<close> the record of the calls made so
  far.
\<close>

record Controller =
  player_cache :: "string \<rightharpoonup> Player"
  nick_database :: NickDatabase
  settings :: Settings
  settings_on_disk :: Settings
  downloader_api_key :: string
  api_key_invalid :: bool
  redraw_event :: bool
  calls :: "Call list"

text \<open>The one exception of the resolver: a stats record without the key "displayname".\<close>

datatype error = KeyError string

section \<open>Python dicts\<close>

fun dict_get :: "'v pydict \<Rightarrow> string \<Rightarrow> 'v option" where
  "dict_get [] k = None"
| "dict_get ((k', v) # d) k = (if k' = k then Some v else dict_get d k)"

text \<open>\<^verbatim>\<open>d.pop(k, None)\<close>\<close>

fun dict_pop :: "string \<Rightarrow> 'v pydict \<Rightarrow> 'v pydict" where
  "dict_pop k [] = []"
| "dict_pop k ((k', v) # d) = (if k' = k then dict_pop k d else (k', v) # dict_pop k d)"

text \<open>\<^verbatim>\<open>d[k] = v\<close>: an existing key keeps its place, a new key goes last.\<close>

fun dict_set :: "string \<Rightarrow> 'v \<Rightarrow> 'v pydict \<Rightarrow> 'v pydict" where
  "dict_set k v [] = [(k, v)]"
| "dict_set k v ((k', v') # d) = (if k' = k then (k, v) # d else (k', v') # dict_set k v d)"

definition dict_keys :: "'v pydict \<Rightarrow> string list" where
  "dict_keys d = map fst d"

section \<open>The player cache\<close>

text \<open>
  Modelled from the spec: \<^verbatim>\<open>examples/overlay/player_cache.py\<close> is missing. The cache maps
  a username or nickname (case-sensitive) to a player record and offers \<open>get\<close>, \<open>set\<close>,
  \<open>invalidate\<close>, \<open>clear_all\<close> and \<open>update\<close>, a read-modify-write used for the winstreak
  backfill, which applies to Known records.
\<close>

definition get_cached_player :: "string \<Rightarrow> Controller \<Rightarrow> Player option" where
  "get_cached_player name c = player_cache c name"

definition set_cached_player :: "string \<Rightarrow> Player \<Rightarrow> Controller \<Rightarrow> Controller" where
  "set_cached_player name player c = c\<lparr>player_cache := (player_cache c)(name \<mapsto> player)\<rparr>"

definition uncache_player :: "string \<Rightarrow> Controller \<Rightarrow> Controller" where
  "uncache_player name c = c\<lparr>player_cache := (player_cache c)(name := None)\<rparr>"

definition clear_cache :: "Controller \<Rightarrow> Controller" where
  "clear_cache c = c\<lparr>player_cache := Map.empty\<rparr>"

definition update_cached_player ::
  "string \<Rightarrow> (KnownPlayer \<Rightarrow> KnownPlayer) \<Rightarrow> Controller \<Rightarrow> Controller" where
  "update_cached_player name f c =
     (case player_cache c name of
        Some (Known k) \<Rightarrow> c\<lparr>player_cache := (player_cache c)(name \<mapsto> Known (f k))\<rparr>
      | _ \<Rightarrow> c)"

section \<open>Outbound calls and nick database reads\<close>

definition record_call :: "Call \<Rightarrow> Controller \<Rightarrow> Controller" where
  "record_call e c = c\<lparr>calls := calls c @ [e]\<rparr>"

definition get_uuid :: "Providers \<Rightarrow> string \<Rightarrow> Controller \<Rightarrow> string option \<times> Controller" where
  "get_uuid w name c =
     (uuid_provider w (calls c) name,
      record_call (Get_uuid name (uuid_provider w (calls c) name)) c)"

definition controller_denick ::
  "Providers \<Rightarrow> string \<Rightarrow> Controller \<Rightarrow> string option \<times> Controller" where
  "controller_denick w name c =
     (denick_provider w (calls c) name,
      record_call (Denick_api name (denick_provider w (calls c) name)) c)"

definition get_player_data ::
  "Providers \<Rightarrow> string \<Rightarrow> Controller \<Rightarrow> PlayerData option \<times> Controller" where
  "get_player_data w u c =
     (playerdata_provider w (calls c) u,
      record_call (Get_player_data u (playerdata_provider w (calls c) u)) c)"

definition get_estimated_winstreaks ::
  "Providers \<Rightarrow> string \<Rightarrow> Controller \<Rightarrow> (Estimate \<times> bool) \<times> Controller" where
  "get_estimated_winstreaks w u c =
     (winstreaks_provider w (calls c) u,
      record_call (Get_estimated_winstreaks u (winstreaks_provider w (calls c) u)) c)"

fun first_hit :: "(string \<rightharpoonup> string) list \<Rightarrow> string \<Rightarrow> string option" where
  "first_hit [] name = None"
| "first_hit (d # ds) name = (case d name of Some u \<Rightarrow> Some u | None \<Rightarrow> first_hit ds name)"

definition get_default :: "string \<Rightarrow> Controller \<Rightarrow> string option \<times> Controller" where
  "get_default name c =
     (default_database (nick_database c) name,
      record_call (Get_default name (default_database (nick_database c) name)) c)"

definition nick_get :: "string \<Rightarrow> Controller \<Rightarrow> string option \<times> Controller" where
  "nick_get name c =
     (first_hit (default_database (nick_database c) # databases (nick_database c)) name,
      record_call
        (Nick_get name
           (first_hit (default_database (nick_database c) # databases (nick_database c)) name))
        c)"

section \<open>The resolver: \<^verbatim>\<open>examples/overlay/get_stats.py\<close>\<close>

definition denick :: "Providers \<Rightarrow> string \<Rightarrow> Controller \<Rightarrow> string option \<times> Controller" where
  "denick w name c0 =
     (case get_default name c0 of
        (Some u, c1) \<Rightarrow> (Some u, c1)
      | (None, c1) \<Rightarrow>
          (case controller_denick w name c1 of
             (Some u, c2) \<Rightarrow> (Some u, c2)
           | (None, c2) \<Rightarrow>
               (case nick_get name c2 of
                  (Some u, c3) \<Rightarrow> (Some u, c3)
                | (None, c3) \<Rightarrow> (None, c3))))"

text \<open>
  Modelled from the spec: \<^verbatim>\<open>create_known_player\<close> of the missing
  \<^verbatim>\<open>examples/overlay/player.py\<close> wraps the fetched record as Known, under the username,
  uuid and nick it is given; a winstreak the provider left out is the "unknown" marker.
\<close>

definition create_known_player ::
  "PlayerData \<Rightarrow> string \<Rightarrow> string \<Rightarrow> string option \<Rightarrow> KnownPlayer" where
  "create_known_player playerdata name u n =
     \<lparr>uuid = u, username = name, nick = n, stats = bedwars_stats playerdata,
      winstreak = bedwars_winstreak playerdata,
      winstreak_accurate = (bedwars_winstreak playerdata \<noteq> None)\<rparr>"

text \<open>
  The first block of \<^verbatim>\<open>fetch_bedwars_stats\<close> (lines 45 to 56): the identity lookup and,
  when it gives nothing, the denick. The result is \<open>(uuid, nick, denicked)\<close>.
\<close>

definition lookup_identity ::
  "Providers \<Rightarrow> string \<Rightarrow> Controller \<Rightarrow> (string option \<times> string option \<times> bool) \<times> Controller" where
  "lookup_identity w name c0 =
     (case get_uuid w name c0 of
        (Some u, c1) \<Rightarrow> ((Some u, None, False), c1)
      | (None, c1) \<Rightarrow>
          (case denick w name c1 of
             (Some d, c2) \<Rightarrow> ((Some d, Some name, True), c2)
           | (None, c2) \<Rightarrow> ((None, None, False), c2)))"

text \<open>
  The second block (lines 62 to 78): the stats fetch and, for a lookup that was not
  denicked and got no data, the second denick with its refetch. The result is
  \<open>(uuid, nick, playerdata)\<close>.
\<close>

definition fetch_playerdata ::
  "Providers \<Rightarrow> string \<Rightarrow> string \<Rightarrow> string option \<Rightarrow> bool \<Rightarrow> Controller \<Rightarrow>
   (string \<times> string option \<times> PlayerData option) \<times> Controller" where
  "fetch_playerdata w name u n denicked c0 =
     (case get_player_data w u c0 of
        (playerdata, c1) \<Rightarrow>
          if \<not> denicked \<and> playerdata = None then
            (case denick w name c1 of
               (Some d, c2) \<Rightarrow>
                 (case get_player_data w d c2 of
                    (playerdata', c3) \<Rightarrow> ((d, Some name, playerdata'), c3))
             | (None, c2) \<Rightarrow> ((u, n, playerdata), c2))
          else ((u, n, playerdata), c1))"

definition fetch_bedwars_stats ::
  "Providers \<Rightarrow> string \<Rightarrow> Controller \<Rightarrow> (error + Player) \<times> Controller" where
  "fetch_bedwars_stats w name c0 =
     (case lookup_identity w name c0 of
        ((None, n, denicked), c1) \<Rightarrow> (Inr (Nicked name), c1)
      | ((Some u, n, denicked), c1) \<Rightarrow>
          (case fetch_playerdata w name u n denicked c1 of
             ((u', n', None), c2) \<Rightarrow> (Inr (Nicked name), c2)
           | ((u', None, Some playerdata), c2) \<Rightarrow>
               (Inr (Known (create_known_player playerdata name u' None)), c2)
           | ((u', Some nk, Some playerdata), c2) \<Rightarrow>
               (case displayname playerdata of
                  None \<Rightarrow> (Inl (KeyError ''displayname''), c2)
                | Some name' \<Rightarrow>
                    (Inr (Known (create_known_player playerdata name' u' (Some nk))), c2))))"

definition is_pending :: "Player \<Rightarrow> bool" where
  "is_pending p = (case p of Pending _ \<Rightarrow> True | _ \<Rightarrow> False)"

definition get_bedwars_stats ::
  "Providers \<Rightarrow> string \<Rightarrow> Controller \<Rightarrow> (error + Player) \<times> Controller" where
  "get_bedwars_stats w name c0 =
     (let cached_stats = get_cached_player name c0 in
      if cached_stats \<noteq> None \<and> \<not> is_pending (the cached_stats) then (Inr (the cached_stats), c0)
      else
        (case fetch_bedwars_stats w name c0 of
           (Inl e, c1) \<Rightarrow> (Inl e, c1)
         | (Inr player, c1) \<Rightarrow>
             (let c2 = (case player of
                          Known k \<Rightarrow>
                            if nick k \<noteq> None
                            then set_cached_player (username k) (Known (k\<lparr>nick := None\<rparr>)) c1
                            else c1
                        | _ \<Rightarrow> c1)
              in (Inr player, set_cached_player name player c2))))"

section \<open>The mutation protocol: \<^verbatim>\<open>examples/overlay/behaviour.py\<close>\<close>

text \<open>
  \<^verbatim>\<open>controller.store_settings()\<close> flushes the settings to disk; the file format is not
  part of the model, the flushed value is.
\<close>

definition store_settings :: "Controller \<Rightarrow> Controller" where
  "store_settings c = c\<lparr>settings_on_disk := settings c\<rparr>"



definition set_hypixel_api_key :: "string \<Rightarrow> Controller \<Rightarrow> Controller" where
  "set_hypixel_api_key new_key c0 =
     (let c1 = c0\<lparr>downloader_api_key := new_key\<rparr>;
          c2 = c1\<lparr>api_key_invalid := False\<rparr>;
          c3 = store_settings (c2\<lparr>settings := (settings c2)\<lparr>hypixel_api_key := new_key\<rparr>\<rparr>)
      in clear_cache c3)"

text \<open>
  The nested function \<^verbatim>\<open>uuid_changed\<close> of \<^verbatim>\<open>update_settings\<close> compares the two values
  of the nickname, which are dicts with a uuid and a comment.
\<close>

definition uuid_changed :: "Settings \<Rightarrow> Controller \<Rightarrow> string \<Rightarrow> bool" where
  "uuid_changed new_settings c nickname =
     (dict_get (known_nicks new_settings) nickname \<noteq> dict_get (known_nicks (settings c)) nickname)"

definition added_nicknames :: "Settings \<Rightarrow> Controller \<Rightarrow> string list" where
  "added_nicknames new_settings c =
     filter (\<lambda>n. n \<notin> set (dict_keys (known_nicks (settings c))))
       (remdups (dict_keys (known_nicks new_settings)))"

definition removed_nicknames :: "Settings \<Rightarrow> Controller \<Rightarrow> string list" where
  "removed_nicknames new_settings c =
     filter (\<lambda>n. n \<notin> set (dict_keys (known_nicks new_settings)))
       (remdups (dict_keys (known_nicks (settings c))))"

definition updated_nicknames :: "Settings \<Rightarrow> Controller \<Rightarrow> string list" where
  "updated_nicknames new_settings c =
     filter (uuid_changed new_settings c)
       (filter (\<lambda>n. n \<in> set (dict_keys (known_nicks (settings c))))
          (remdups (dict_keys (known_nicks new_settings))))"

definition potential_antisniper_updates :: "Settings \<Rightarrow> Controller \<Rightarrow> bool" where
  "potential_antisniper_updates new_settings c =
     ((antisniper_api_key new_settings \<noteq> antisniper_api_key (settings c)
         \<and> use_antisniper_api new_settings)
      \<or> (use_antisniper_api new_settings \<noteq> use_antisniper_api (settings c)
         \<and> antisniper_api_key new_settings \<noteq> None))"

definition update_settings :: "Settings \<Rightarrow> Controller \<Rightarrow> Controller" where
  "update_settings new_settings c0 =
     (let hypixel_api_key_changed = (hypixel_api_key new_settings \<noteq> hypixel_api_key (settings c0));
          added = added_nicknames new_settings c0;
          removed = removed_nicknames new_settings c0;
          updated = updated_nicknames new_settings c0;
          c1 = (if hypixel_api_key_changed \<or> potential_antisniper_updates new_settings c0
                then clear_cache c0
                else fold uncache_player updated (fold uncache_player (added @ removed) c0));
          dd0 = default_database (nick_database c1);
          dd1 = fold (\<lambda>n d. d(n := None)) removed dd0;
          dd2 = fold (\<lambda>n d. case dict_get (known_nicks new_settings) n of
                               Some v \<Rightarrow> d(n \<mapsto> nick_uuid v) | None \<Rightarrow> d)
                     (added @ updated) dd1;
          c2 = c1\<lparr>nick_database := (nick_database c1)\<lparr>default_database := dd2\<rparr>\<rparr>;
          c3 = c2\<lparr>redraw_event := True\<rparr>;
          c4 = c3\<lparr>settings := new_settings\<rparr>
      in store_settings c4)"

text \<open>
  Modelled from the spec: \<^verbatim>\<open>is_missing_winstreaks\<close>, \<^verbatim>\<open>aliases\<close> and
  \<^verbatim>\<open>update_winstreaks\<close> of the missing \<^verbatim>\<open>examples/overlay/player.py\<close>. A Known record
  misses its winstreak when it carries the "unknown" marker; its aliases are the names it is
  cached under, the username and the nick when there is one; the backfill fills in a missing
  winstreak with the estimate and leaves a winstreak that is there.
\<close>

definition is_missing_winstreaks :: "KnownPlayer \<Rightarrow> bool" where
  "is_missing_winstreaks k = (winstreak k = None)"

definition aliases :: "KnownPlayer \<Rightarrow> string list" where
  "aliases k = username k # (case nick k of Some n \<Rightarrow> [n] | None \<Rightarrow> [])"

definition update_winstreaks :: "int option \<Rightarrow> bool \<Rightarrow> KnownPlayer \<Rightarrow> KnownPlayer" where
  "update_winstreaks estimate accurate k =
     (if winstreak k = None then k\<lparr>winstreak := estimate, winstreak_accurate := accurate\<rparr> else k)"

definition get_stats_and_winstreak ::
  "Providers \<Rightarrow> string \<Rightarrow> string list \<Rightarrow> Controller \<Rightarrow> (error + unit) \<times> string list \<times> Controller" where
  "get_stats_and_winstreak w name completed_queue c0 =
     (case get_bedwars_stats w name c0 of
        (Inl e, c1) \<Rightarrow> (Inl e, completed_queue, c1)
      | (Inr player, c1) \<Rightarrow>
          (let q1 = completed_queue @ [name] in
           case player of
             Known k \<Rightarrow>
               if is_missing_winstreaks k then
                 (case get_estimated_winstreaks w (uuid k) c1 of
                    ((MISSING_WINSTREAKS, accurate), c2) \<Rightarrow> (Inr (), q1, c2)
                  | ((Winstreaks estimate, accurate), c2) \<Rightarrow>
                      (Inr (), q1 @ [name],
                       fold (\<lambda>alias. update_cached_player alias (update_winstreaks estimate accurate))
                         (aliases k) c2))
               else (Inr (), q1, c1)
           | _ \<Rightarrow> (Inr (), q1, c1)))"

section \<open>The sidelay: \<^verbatim>\<open>examples/sidelay/stats.py\<close>\<close>

text \<open>
  A Python float is a finite number, an infinity or NaN; no arithmetic is done on the values
  here, they are stored, returned and compared. \<^verbatim>\<open>float("inf")\<close> is \<open>PosInf\<close>.
\<close>

datatype pyfloat = Finite real | PosInf | NegInf | NaN

datatype pyvalue = IntValue int | FloatValue pyfloat | StrValue string

text \<open>Python's \<^verbatim>\<open><\<close> and \<^verbatim>\<open>==\<close> on floats: every comparison with NaN is false.\<close>

fun float_less :: "pyfloat \<Rightarrow> pyfloat \<Rightarrow> bool" where
  "float_less NaN y = False"
| "float_less x NaN = False"
| "float_less (Finite a) (Finite b) = (a < b)"
| "float_less (Finite a) PosInf = True"
| "float_less (Finite a) NegInf = False"
| "float_less PosInf y = False"
| "float_less NegInf NegInf = False"
| "float_less NegInf y = True"

fun float_eq :: "pyfloat \<Rightarrow> pyfloat \<Rightarrow> bool" where
  "float_eq NaN y = False"
| "float_eq x NaN = False"
| "float_eq x y = (x = y)"

text \<open>
  \<^verbatim>\<open><\<close> on the values of a stat: numbers are compared by value, an int with a float too;
  a string against a number raises TypeError (\<open>None\<close>).
\<close>

fun str_less :: "string \<Rightarrow> string \<Rightarrow> bool" where
  "str_less [] [] = False"
| "str_less [] (y # ys) = True"
| "str_less (x # xs) [] = False"
| "str_less (x # xs) (y # ys) =
     (if x = y then str_less xs ys else (of_char x :: nat) < of_char y)"

fun py_less :: "pyvalue \<Rightarrow> pyvalue \<Rightarrow> bool option" where
  "py_less (IntValue a) (IntValue b) = Some (a < b)"
| "py_less (IntValue a) (FloatValue y) = Some (float_less (Finite (of_int a)) y)"
| "py_less (FloatValue x) (IntValue b) = Some (float_less x (Finite (of_int b)))"
| "py_less (FloatValue x) (FloatValue y) = Some (float_less x y)"
| "py_less (StrValue s) (StrValue t) = Some (str_less s t)"
| "py_less x y = None"

text \<open>A finite number: an int, or a float that is neither an infinity nor NaN.\<close>

fun finite_value :: "pyvalue \<Rightarrow> bool" where
  "finite_value (IntValue i) = True"
| "finite_value (FloatValue (Finite x)) = True"
| "finite_value v = False"

text \<open>
  The dataclass \<^verbatim>\<open>PlayerStats\<close>. Its fields are declared in the order \<^verbatim>\<open>fkdr\<close>,
  \<^verbatim>\<open>stars\<close>, \<^verbatim>\<open>wlr\<close>, \<^verbatim>\<open>winstreak\<close>, \<^verbatim>\<open>username\<close>, which is the order of comparison
  (\<^verbatim>\<open>order=True\<close>); \<^verbatim>\<open>nick\<close> is left out of comparisons. The fields
  \<^verbatim>\<open>fkdr\<close>, \<^verbatim>\<open>stars\<close> and \<^verbatim>\<open>wlr\<close> are annotated \<^verbatim>\<open>float\<close>; an int that the
  code stores there is the float of the same value here.
\<close>

record PlayerStats =
  ps_fkdr :: pyfloat
  ps_stars :: pyfloat
  ps_wlr :: pyfloat
  ps_winstreak :: int
  ps_username :: string
  ps_nick :: "string option"

text \<open>The dataclass \<^verbatim>\<open>NickedPlayer\<close> of the sidelay, with its one field \<^verbatim>\<open>username\<close>.\<close>

datatype NickedPlayer = NickedPlayer (np_username: string)

text \<open>\<^verbatim>\<open>Stats = Union[PlayerStats, NickedPlayer]\<close>\<close>

datatype Stats = Stats_Player PlayerStats | Stats_Nicked NickedPlayer

text \<open>
  \<^verbatim>\<open>PlayerStats.get_value\<close>; a name that matches no branch falls off the end of the
  function, which returns \<^verbatim>\<open>None\<close>.
\<close>

definition PlayerStats_get_value :: "PlayerStats \<Rightarrow> string \<Rightarrow> pyvalue option" where
  "PlayerStats_get_value p name =
     (if name = ''fkdr'' then Some (FloatValue (ps_fkdr p))
      else if name = ''stars'' then Some (FloatValue (ps_stars p))
      else if name = ''wlr'' then Some (FloatValue (ps_wlr p))
      else if name = ''winstreak'' then Some (IntValue (ps_winstreak p))
      else if name = ''username'' then
        Some (StrValue (ps_username p
                @ (case ps_nick p of Some n \<Rightarrow> '' ('' @ n @ '')'' | None \<Rightarrow> '''')))
      else None)"

definition NickedPlayer_nicked :: "NickedPlayer \<Rightarrow> bool" where
  "NickedPlayer_nicked p = True"

definition PlayerStats_nicked :: "PlayerStats \<Rightarrow> bool" where
  "PlayerStats_nicked p = False"

definition NickedPlayer_get_value :: "NickedPlayer \<Rightarrow> string \<Rightarrow> pyvalue" where
  "NickedPlayer_get_value p name = FloatValue PosInf"

definition NickedPlayer_get_string :: "NickedPlayer \<Rightarrow> string \<Rightarrow> string" where
  "NickedPlayer_get_string p name = (if name = ''username'' then np_username p else ''unknown'')"

text \<open>
  The sort key of \<^verbatim>\<open>rate_stats_for_non_party_members\<close>: a pair for a nicked player, a
  triple for a known one.
\<close>

datatype SortKey = Key2 bool bool | Key3 bool bool PlayerStats

definition rate_stats :: "string set \<Rightarrow> Stats \<Rightarrow> SortKey" where
  "rate_stats party_members player_stats =
     (case player_stats of
        Stats_Nicked p \<Rightarrow> Key2 (np_username p \<notin> party_members) (NickedPlayer_nicked p)
      | Stats_Player p \<Rightarrow>
          Key3 (ps_username p \<notin> party_members) (PlayerStats_nicked p) p)"

text \<open>
  Python compares tuples at the first position where they differ; a tuple that is a proper
  prefix of the other is the smaller one. \<^verbatim>\<open>False < True\<close>. Two NaN are never equal
  here; that CPython takes one and the same NaN object in both tuples as equal is not
  modelled.
\<close>

definition stats_less :: "PlayerStats \<Rightarrow> PlayerStats \<Rightarrow> bool" where
  "stats_less a b =
     (if \<not> float_eq (ps_fkdr a) (ps_fkdr b) then float_less (ps_fkdr a) (ps_fkdr b)
      else if \<not> float_eq (ps_stars a) (ps_stars b) then float_less (ps_stars a) (ps_stars b)
      else if \<not> float_eq (ps_wlr a) (ps_wlr b) then float_less (ps_wlr a) (ps_wlr b)
      else if ps_winstreak a \<noteq> ps_winstreak b then ps_winstreak a < ps_winstreak b
      else str_less (ps_username a) (ps_username b))"

fun key_parts :: "SortKey \<Rightarrow> bool \<times> bool \<times> PlayerStats option" where
  "key_parts (Key2 e n) = (e, n, None)"
| "key_parts (Key3 e n s) = (e, n, Some s)"

definition key_less :: "SortKey \<Rightarrow> SortKey \<Rightarrow> bool" where
  "key_less k k' =
     (case (key_parts k, key_parts k') of
        ((e, n, s), (e', n', s')) \<Rightarrow>
          if e \<noteq> e' then e < e'
          else if n \<noteq> n' then n < n'
          else (case (s, s') of
                  (None, None) \<Rightarrow> False
                | (None, Some b) \<Rightarrow> True
                | (Some a, None) \<Rightarrow> False
                | (Some a, Some b) \<Rightarrow> stats_less a b))"

section \<open>The resolver of the sidelay: \<^verbatim>\<open>get_bedwars_stats\<close> of \<^verbatim>\<open>examples/sidelay/stats.py\<close>\<close>











section \<open>Reading the record of calls\<close>

text \<open>The calls made between two states of the controller.\<close>

definition new_calls :: "Controller \<Rightarrow> Controller \<Rightarrow> Call list" where
  "new_calls c c' = drop (length (calls c)) (calls c')"

text \<open>The second state is the first one with more calls on record, and nothing else changed.\<close>

definition extends :: "Controller \<Rightarrow> Controller \<Rightarrow> bool" where
  "extends c c' = (\<exists>new. c' = c\<lparr>calls := calls c @ new\<rparr>)"

text \<open>A denick starts with one read of the default database.\<close>

definition is_get_default :: "Call \<Rightarrow> bool" where
  "is_get_default e = (case e of Get_default _ _ \<Rightarrow> True | _ \<Rightarrow> False)"


text \<open>
  Asking a list of sources in order and stopping at the first one that gives a uuid.
\<close>

fun consult ::
  "(Controller \<Rightarrow> string option \<times> Controller) list \<Rightarrow> Controller \<Rightarrow> string option \<times> Controller" where
  "consult [] c = (None, c)"
| "consult (source # sources) c =
     (case source c of (Some u, c') \<Rightarrow> (Some u, c') | (None, c') \<Rightarrow> consult sources c')"

text \<open>
  The order of the sources as the specification words it: the persisted nickname binding
  (\<^verbatim>\<open>settings.known_nicks\<close>, which \<^verbatim>\<open>store_settings\<close> writes to disk), then the
  API-backed denick call, then the default binding table.
\<close>

definition persisted_get :: "string \<Rightarrow> Controller \<Rightarrow> string option \<times> Controller" where
  "persisted_get name c = (map_option nick_uuid (dict_get (known_nicks (settings c)) name), c)"

definition denick_spec_order ::
  "Providers \<Rightarrow> string \<Rightarrow> Controller \<Rightarrow> string option \<times> Controller" where
  "denick_spec_order w name c =
     consult [persisted_get name, controller_denick w name, get_default name] c"

section \<open>Scenarios\<close>

text \<open>Providers whose answers do not change over time.\<close>

definition constant_world ::
  "(string \<rightharpoonup> string) \<Rightarrow> (string \<rightharpoonup> string) \<Rightarrow> (string \<rightharpoonup> PlayerData) \<Rightarrow>
   (string \<Rightarrow> Estimate \<times> bool) \<Rightarrow> Providers" where
  "constant_world ids denicks datas estimates =
     \<lparr>uuid_provider = (\<lambda>h. ids), denick_provider = (\<lambda>h. denicks),
      playerdata_provider = (\<lambda>h. datas), winstreaks_provider = (\<lambda>h. estimates)\<rparr>"

definition empty_settings :: Settings where
  "empty_settings =
     \<lparr>hypixel_api_key = ''my-key'', antisniper_api_key = None, use_antisniper_api = False,
      known_nicks = []\<rparr>"

definition fresh_controller :: Controller where
  "fresh_controller =
     \<lparr>player_cache = Map.empty,
      nick_database = \<lparr>default_database = Map.empty, databases = []\<rparr>,
      settings = empty_settings, settings_on_disk = empty_settings,
      downloader_api_key = ''my-key'', api_key_invalid = False, redraw_event = False,
      calls = []\<rparr>"

text \<open>
  The scenario of the specification: "Steve" has no hit at the identity provider and is bound
  to the id "u1"; the stats provider answers with a record whose winstreak is unknown.
\<close>

definition steve_data :: PlayerData where
  "steve_data =
     \<lparr>displayname = Some ''RealSteve'', bedwars_winstreak = None,
      bedwars_stats = [(''wins_bedwars'', 3)]\<rparr>"

definition steve_settings :: Settings where
  "steve_settings =
     empty_settings\<lparr>known_nicks := [(''Steve'', \<lparr>nick_uuid = ''u1'', comment = ''RealSteve''\<rparr>)]\<rparr>"

definition steve_controller :: Controller where
  "steve_controller =
     fresh_controller
       \<lparr>nick_database := \<lparr>default_database = [''Steve'' \<mapsto> ''u1''], databases = []\<rparr>,
        settings := steve_settings, settings_on_disk := steve_settings\<rparr>"

definition steve_world :: Providers where
  "steve_world =
     constant_world Map.empty Map.empty [''u1'' \<mapsto> steve_data] (\<lambda>u. (MISSING_WINSTREAKS, False))"

text \<open>
  The default database binds "Steve" to "u1", the denick API answers "u2", the persisted
  table has no entry.
\<close>

definition default_only_controller :: Controller where
  "default_only_controller =
     fresh_controller
       \<lparr>nick_database := \<lparr>default_database = [''Steve'' \<mapsto> ''u1''], databases = []\<rparr>\<rparr>"

definition api_world :: Providers where
  "api_world =
     constant_world Map.empty [''Steve'' \<mapsto> ''u2''] Map.empty (\<lambda>u. (MISSING_WINSTREAKS, False))"



text \<open>No provider knows anything.\<close>

definition silent_world :: Providers where
  "silent_world =
     constant_world Map.empty Map.empty Map.empty (\<lambda>u. (MISSING_WINSTREAKS, False))"


text \<open>The controller of the "Steve" scenario with three entries in its cache.\<close>

definition cached_controller :: Controller where
  "cached_controller =
     steve_controller
       \<lparr>player_cache := [''Steve'' \<mapsto> Nicked ''Steve'', ''NewNick'' \<mapsto> Nicked ''NewNick'',
                          ''Other'' \<mapsto> Nicked ''Other'']\<rparr>"

text \<open>New settings that differ from the "Steve" settings in the Hypixel key only.\<close>

definition new_key_settings :: Settings where
  "new_key_settings = steve_settings\<lparr>hypixel_api_key := ''new-key''\<rparr>"

text \<open>
  New settings that differ from the "Steve" settings in the comment of the nickname "Steve"
  only: the nickname is bound to the same uuid as before.
\<close>

definition new_comment_settings :: Settings where
  "new_comment_settings =
     steve_settings\<lparr>known_nicks := [(''Steve'', \<lparr>nick_uuid = ''u1'', comment = ''my friend''\<rparr>)]\<rparr>"

text \<open>The effect of a cache update on a record: a Known record is changed, others are kept.\<close>

definition on_known :: "(KnownPlayer \<Rightarrow> KnownPlayer) \<Rightarrow> Player \<Rightarrow> Player" where
  "on_known f p = (case p of Known k \<Rightarrow> Known (f k) | _ \<Rightarrow> p)"

text \<open>The "Steve" scenario with a winstreak estimate of 7.\<close>

definition estimating_world :: Providers where
  "estimating_world =
     constant_world Map.empty Map.empty [''u1'' \<mapsto> steve_data] (\<lambda>u. (Winstreaks (Some 7), False))"

text \<open>A nicked and a known player of the sidelay, both outside the party.\<close>

definition nicked_enemy :: NickedPlayer where
  "nicked_enemy = NickedPlayer ''AmazingNick''"

definition known_enemy :: PlayerStats where
  "known_enemy =
     \<lparr>ps_fkdr = Finite 8, ps_stars = Finite 500, ps_wlr = Finite 4, ps_winstreak = 50,
      ps_username = ''Player2'', ps_nick = None\<rparr>"






section \<open>The record of calls only grows\<close>

lemmas provider_defs = get_uuid_def get_default_def controller_denick_def nick_get_def
  get_player_data_def get_estimated_winstreaks_def

lemmas scenario_defs = constant_world_def empty_settings_def fresh_controller_def

lemma extendsI: "c' = c\<lparr>calls := calls c @ new\<rparr> \<Longrightarrow> extends c c'"
  by (auto simp: extends_def)

lemma extends_refl: "extends c c"
  by (rule extendsI [of _ _ "[]"]) simp

lemma extends_record_call: "extends c c' \<Longrightarrow> extends c (record_call e c')"
proof -
  assume "extends c c'"
  then obtain new where "c' = c\<lparr>calls := calls c @ new\<rparr>" by (auto simp: extends_def)
  then have "record_call e c' = c\<lparr>calls := calls c @ (new @ [e])\<rparr>"
    by (simp add: record_call_def)
  then show ?thesis by (rule extendsI)
qed

lemma extends_trans: "extends c c' \<Longrightarrow> extends c' c'' \<Longrightarrow> extends c c''"
proof -
  assume "extends c c'" and "extends c' c''"
  then obtain n1 n2 where "c' = c\<lparr>calls := calls c @ n1\<rparr>" and "c'' = c'\<lparr>calls := calls c' @ n2\<rparr>"
    by (auto simp: extends_def)
  then have "c'' = c\<lparr>calls := calls c @ (n1 @ n2)\<rparr>" by simp
  then show ?thesis by (rule extendsI)
qed

lemma new_calls_trans:
  "extends c c' \<Longrightarrow> extends c' c'' \<Longrightarrow> new_calls c c'' = new_calls c c' @ new_calls c' c''"
  by (auto simp: extends_def new_calls_def)

lemma new_calls_record_call [simp]: "new_calls c (record_call e c) = [e]"
  by (simp add: new_calls_def record_call_def)

lemma new_calls_same [simp]: "new_calls c c = []"
  by (simp add: new_calls_def)

lemma denick_extends: "extends c (snd (denick w name c))"
  by (auto simp: denick_def provider_defs Let_def intro!: extends_record_call extends_refl
      split: option.splits)

lemma lookup_identity_extends: "extends c (snd (lookup_identity w name c))"
  using denick_extends [of "record_call (Get_uuid name None) c" w name]
  by (auto simp: lookup_identity_def get_uuid_def Let_def intro!: extends_record_call extends_refl
      intro: extends_trans split: option.splits prod.splits)

lemma fetch_playerdata_extends: "extends c (snd (fetch_playerdata w name u n d c))"
  using denick_extends [of "record_call (Get_player_data u None) c" w name]
  by (auto simp: fetch_playerdata_def get_player_data_def Let_def
      intro!: extends_record_call extends_refl intro: extends_trans
      split: option.splits prod.splits)

lemma fetch_bedwars_stats_extends: "extends c (snd (fetch_bedwars_stats w name c))"
proof -
  obtain r c1 where l: "lookup_identity w name c = (r, c1)" by (cases "lookup_identity w name c")
  have e1: "extends c c1" using lookup_identity_extends [of c w name] l by simp
  show ?thesis
  proof (cases "fst r")
    case None
    then show ?thesis using l e1 by (cases r) (auto simp: fetch_bedwars_stats_def)
  next
    case (Some u)
    obtain nn dd where r: "r = (Some u, nn, dd)" using Some by (cases r) auto
    obtain r2 c2 where f: "fetch_playerdata w name u nn dd c1 = (r2, c2)"
      by (cases "fetch_playerdata w name u nn dd c1")
    have e2: "extends c1 c2" using fetch_playerdata_extends [of c1 w name u nn dd] f by simp
    have "snd (fetch_bedwars_stats w name c) = c2"
      using l r f by (auto simp: fetch_bedwars_stats_def split: prod.splits option.splits)
    then show ?thesis using e1 e2 extends_trans by auto
  qed
qed

section \<open>The denick chain\<close>

lemma denick_new_calls:
  "new_calls c (snd (denick w name c)) =
     (case default_database (nick_database c) name of
        Some u \<Rightarrow> [Get_default name (Some u)]
      | None \<Rightarrow>
          (case denick_provider w (calls c @ [Get_default name None]) name of
             Some u \<Rightarrow> [Get_default name None, Denick_api name (Some u)]
           | None \<Rightarrow>
               [Get_default name None, Denick_api name None,
                Nick_get name (first_hit (databases (nick_database c)) name)]))"
  by (simp add: denick_def provider_defs Let_def new_calls_def record_call_def split: option.splits)

lemma denick_result:
  "fst (denick w name c) =
     (case default_database (nick_database c) name of
        Some u \<Rightarrow> Some u
      | None \<Rightarrow>
          (case denick_provider w (calls c @ [Get_default name None]) name of
             Some u \<Rightarrow> Some u
           | None \<Rightarrow> first_hit (databases (nick_database c)) name))"
  by (simp add: denick_def provider_defs Let_def record_call_def split: option.splits)



text \<open>
  C1 (as amended). When the identity provider has no uuid for a username,
  \<^verbatim>\<open>fetch_bedwars_stats\<close> runs \<^verbatim>\<open>denick\<close> right after the lookup, and \<^verbatim>\<open>denick\<close> asks, in
  this order and stopping at the first uuid: the default database
  (\<^verbatim>\<open>nick_database.get_default\<close>), the denick API (\<^verbatim>\<open>controller.denick\<close>), the nick
  database (\<^verbatim>\<open>nick_database.get\<close>).
\<close>

theorem denick_default_database_first:
  "denick w name c = consult [get_default name, controller_denick w name, nick_get name] c
   \<and> (uuid_provider w (calls c) name = None \<longrightarrow>
        (let c1 = record_call (Get_uuid name None) c;
             asked = new_calls c1 (snd (denick w name c1))
         in take (Suc (length asked)) (new_calls c (snd (fetch_bedwars_stats w name c)))
              = Get_uuid name None # asked))"
proof (intro conjI impI)
  show "denick w name c = consult [get_default name, controller_denick w name, nick_get name] c"
    by (simp add: denick_def split: prod.splits option.splits)
next
  assume none: "uuid_provider w (calls c) name = None"
  let ?c1 = "record_call (Get_uuid name None) c"
  obtain r c2 where d: "denick w name ?c1 = (r, c2)" by (cases "denick w name ?c1")
  have e12: "extends ?c1 c2" using denick_extends [of ?c1 w name] d by simp
  have e01: "extends c ?c1" by (intro extends_record_call extends_refl)
  have "\<exists>rest. new_calls c (snd (fetch_bedwars_stats w name c)) =
           Get_uuid name None # new_calls ?c1 c2 @ rest"
  proof (cases r)
    case None
    then have "snd (fetch_bedwars_stats w name c) = c2"
      using none d by (simp add: fetch_bedwars_stats_def lookup_identity_def get_uuid_def)
    then show ?thesis using new_calls_trans [OF e01 e12] by simp
  next
    case (Some u)
    obtain r3 c3 where f: "fetch_playerdata w name u (Some name) True c2 = (r3, c3)"
      by (cases "fetch_playerdata w name u (Some name) True c2")
    have e23: "extends c2 c3"
      using fetch_playerdata_extends [of c2 w name u "Some name" True] f by simp
    have "snd (fetch_bedwars_stats w name c) = c3"
      using none d Some f
      by (auto simp: fetch_bedwars_stats_def lookup_identity_def get_uuid_def
          split: prod.splits option.splits)
    moreover have "new_calls c c3 = new_calls c ?c1 @ new_calls ?c1 c2 @ new_calls c2 c3"
      using new_calls_trans [OF e01 e12] new_calls_trans [OF extends_trans [OF e01 e12] e23]
      by simp
    ultimately show ?thesis by simp
  qed
  then show "let c1 = ?c1; asked = new_calls c1 (snd (denick w name c1))
         in take (Suc (length asked)) (new_calls c (snd (fetch_bedwars_stats w name c)))
              = Get_uuid name None # asked"
    using d by (auto simp: Let_def)
qed

theorem denick_default_database_first_witness:
  "uuid_provider steve_world (calls steve_controller) ''Steve'' = None
   \<and> take 2 (new_calls steve_controller (snd (fetch_bedwars_stats steve_world ''Steve'' steve_controller)))
       = [Get_uuid ''Steve'' None, Get_default ''Steve'' (Some ''u1'')]"
  using denick_default_database_first [of steve_world "''Steve''" steve_controller]
  by (simp add: denick_new_calls Let_def steve_world_def steve_controller_def scenario_defs
      record_call_def numeral_2_eq_2)

text \<open>
  The default database binds "Steve" to "u1" and the denick API would answer "u2": the code
  returns "u1" after one read of the default database and does not call the API; asking the
  persisted table, the API and the default database in the order of the specification gives
  "u2".
\<close>

theorem denick_spec_order_counterexample:
  "fst (denick api_world ''Steve'' default_only_controller) = Some ''u1''
   \<and> new_calls default_only_controller (snd (denick api_world ''Steve'' default_only_controller))
       = [Get_default ''Steve'' (Some ''u1'')]
   \<and> fst (denick_spec_order api_world ''Steve'' default_only_controller) = Some ''u2''"
  by (simp add: denick_result denick_new_calls denick_spec_order_def persisted_get_def
      controller_denick_def record_call_def api_world_def default_only_controller_def Let_def
      scenario_defs)

section \<open>The retry after an empty stats answer\<close>

lemma is_get_default_simps [simp]:
  "is_get_default (Get_default n r)" "\<not> is_get_default (Get_uuid n r)"
  "\<not> is_get_default (Denick_api n r)" "\<not> is_get_default (Nick_get n r)"
  "\<not> is_get_default (Get_player_data n p)" "\<not> is_get_default (Get_estimated_winstreaks n e)"
  by (simp_all add: is_get_default_def)




section \<open>Unresolved players\<close>






section \<open>The cache in front of the resolver\<close>



section \<open>Alias write-through\<close>










section \<open>Credential update\<close>

text \<open>
  C6. After \<^verbatim>\<open>set_hypixel_api_key\<close>, and after \<^verbatim>\<open>update_settings\<close> with a Hypixel key
  that differs from the one in the settings, the cache has no entry under any name, and the
  settings hold the new key.
\<close>

theorem credential_update_clears_cache:
  "get_cached_player name (set_hypixel_api_key new_key c) = None
   \<and> hypixel_api_key (settings (set_hypixel_api_key new_key c)) = new_key
   \<and> (hypixel_api_key new_settings \<noteq> hypixel_api_key (settings c) \<longrightarrow>
        get_cached_player name (update_settings new_settings c) = None
        \<and> hypixel_api_key (settings (update_settings new_settings c))
            = hypixel_api_key new_settings)"
  by (simp add: set_hypixel_api_key_def update_settings_def clear_cache_def store_settings_def
      get_cached_player_def Let_def)

theorem credential_update_clears_cache_witness:
  "get_cached_player ''Steve'' cached_controller = Some (Nicked ''Steve'')
   \<and> get_cached_player ''Steve'' (set_hypixel_api_key ''new-key'' cached_controller) = None
   \<and> hypixel_api_key new_key_settings \<noteq> hypixel_api_key (settings cached_controller)
   \<and> get_cached_player ''Steve'' (update_settings new_key_settings cached_controller) = None"
  using credential_update_clears_cache [of "''Steve''" "''new-key''" cached_controller new_key_settings]
  by (simp add: get_cached_player_def cached_controller_def steve_controller_def
      new_key_settings_def steve_settings_def scenario_defs)

section \<open>Rebinding a nickname\<close>

lemma dict_get_pop_same [simp]: "dict_get (dict_pop k d) k = None"
  by (induction d) auto

lemma dict_get_pop_other [simp]: "k' \<noteq> k \<Longrightarrow> dict_get (dict_pop k d) k' = dict_get d k'"
  by (induction d) auto

lemma dict_get_set_same [simp]: "dict_get (dict_set k v d) k = Some v"
  by (induction d) auto

lemma dict_get_set_other [simp]: "k' \<noteq> k \<Longrightarrow> dict_get (dict_set k v d) k' = dict_get d k'"
  by (induction d) auto





section \<open>Bulk settings update\<close>

lemma fold_uncache_player_cache:
  "player_cache (fold uncache_player names c) k =
     (if k \<in> set names then None else player_cache c k)"
  by (induction names arbitrary: c) (auto simp: uncache_player_def)

lemma updated_nicknames_iff:
  "k \<in> set (updated_nicknames new_settings c) \<longleftrightarrow>
     k \<in> set (dict_keys (known_nicks new_settings))
     \<and> k \<in> set (dict_keys (known_nicks (settings c)))
     \<and> dict_get (known_nicks new_settings) k \<noteq> dict_get (known_nicks (settings c)) k"
  by (auto simp: updated_nicknames_def uuid_changed_def)

text \<open>
  What \<^verbatim>\<open>update_settings\<close> does to the cache: everything is dropped on a credential
  change; otherwise the entries of the added, the removed and the updated nicknames are
  dropped and all others are kept. An updated nickname is one whose value, uuid or comment,
  differs.
\<close>

lemma update_settings_player_cache:
  "player_cache (update_settings new_settings c) k =
     (if hypixel_api_key new_settings \<noteq> hypixel_api_key (settings c)
         \<or> potential_antisniper_updates new_settings c
      then None
      else if k \<in> set (added_nicknames new_settings c)
              \<or> k \<in> set (removed_nicknames new_settings c)
              \<or> k \<in> set (updated_nicknames new_settings c)
      then None
      else player_cache c k)"
  by (simp add: update_settings_def Let_def store_settings_def clear_cache_def
      fold_uncache_player_cache)

text \<open>
  C8 (the code at the failing input). The new settings keep both keys, the flag and the set
  of nicknames, and bind "Steve" to the same uuid; only the comment of "Steve" differs.
  \<^verbatim>\<open>uuid_changed\<close> compares the whole value, so \<^verbatim>\<open>update_settings\<close> drops the cache
  entry of "Steve".
\<close>

theorem update_settings_comment_change_drops_cache_entry:
  "hypixel_api_key new_comment_settings = hypixel_api_key (settings cached_controller)
   \<and> \<not> potential_antisniper_updates new_comment_settings cached_controller
   \<and> added_nicknames new_comment_settings cached_controller = []
   \<and> removed_nicknames new_comment_settings cached_controller = []
   \<and> map_option nick_uuid (dict_get (known_nicks new_comment_settings) ''Steve'')
       = map_option nick_uuid (dict_get (known_nicks (settings cached_controller)) ''Steve'')
   \<and> get_cached_player ''Steve'' cached_controller = Some (Nicked ''Steve'')
   \<and> get_cached_player ''Steve'' (update_settings new_comment_settings cached_controller) = None"
  by (simp add: update_settings_def added_nicknames_def removed_nicknames_def
      updated_nicknames_def uuid_changed_def potential_antisniper_updates_def dict_keys_def
      uncache_player_def store_settings_def get_cached_player_def Let_def
      new_comment_settings_def cached_controller_def steve_controller_def steve_settings_def
      scenario_defs)

section \<open>Winstreak backfill\<close>

lemma update_cached_player_cache:
  "player_cache (update_cached_player a f c) =
     (player_cache c)(a := map_option (on_known f) (player_cache c a))"
  by (auto simp: update_cached_player_def on_known_def fun_eq_iff split: option.splits Player.splits)

lemma update_cached_player_calls [simp]: "calls (update_cached_player a f c) = calls c"
  by (simp add: update_cached_player_def split: option.splits Player.splits)

lemma fold_update_calls [simp]:
  "calls (fold (\<lambda>a. update_cached_player a f) as c) = calls c"
  by (induction as arbitrary: c) simp_all

lemma fold_update_cache:
  assumes idem: "\<And>k. f (f k) = f k"
  shows "player_cache (fold (\<lambda>a. update_cached_player a f) as c) x =
           (if x \<in> set as then map_option (on_known f) (player_cache c x) else player_cache c x)"
proof (induction as arbitrary: c)
  case Nil
  then show ?case by simp
next
  case (Cons a as)
  have "on_known f (on_known f p) = on_known f p" for p
    by (cases p) (simp_all add: on_known_def idem)
  then have "map_option (on_known f) (map_option (on_known f) o') = map_option (on_known f) o'" for o'
    by (cases o') simp_all
  then show ?case by (simp add: Cons.IH update_cached_player_cache)
qed

lemma update_winstreaks_idem:
  "update_winstreaks e a (update_winstreaks e a k) = update_winstreaks e a k"
  by (simp add: update_winstreaks_def)

lemma get_bedwars_stats_not_pending:
  "get_bedwars_stats w name c = (Inr p, c') \<Longrightarrow> \<not> is_pending p"
  by (auto simp: get_bedwars_stats_def fetch_bedwars_stats_def is_pending_def Let_def
      split: if_splits prod.splits option.splits sum.splits)

text \<open>
  C9. After \<^verbatim>\<open>get_bedwars_stats\<close> has returned a record, \<^verbatim>\<open>get_stats_and_winstreak\<close>
  raises nothing. For a Nicked record and for a Known record that has its winstreak it asks
  for no estimate and leaves the controller as \<^verbatim>\<open>get_bedwars_stats\<close> left it. For a Known
  record that misses its winstreak it asks for exactly one estimate; when the answer is
  \<^verbatim>\<open>MISSING_WINSTREAKS\<close> only the record of calls changes (no cache entry is touched, the
  winstreak stays unknown); otherwise the cache entry under each alias of the player is
  updated with the estimate and all other entries are kept.
\<close>

theorem winstreak_enrichment:
  assumes "get_bedwars_stats w name c = (Inr player, c1)"
  shows "let r = get_stats_and_winstreak w name q c; c' = snd (snd r) in
           fst r = Inr ()
           \<and> (case player of
                 Known k \<Rightarrow>
                   if is_missing_winstreaks k then
                     (let answer = winstreaks_provider w (calls c1) (uuid k);
                          c2 = record_call (Get_estimated_winstreaks (uuid k) answer) c1
                      in new_calls c1 c' = [Get_estimated_winstreaks (uuid k) answer]
                         \<and> (case fst answer of
                               MISSING_WINSTREAKS \<Rightarrow> c' = c2 \<and> fst (snd r) = q @ [name]
                             | Winstreaks estimate \<Rightarrow>
                                 fst (snd r) = q @ [name, name]
                                 \<and> (\<forall>a. player_cache c' a =
                                       (if a \<in> set (aliases k)
                                        then map_option (on_known (update_winstreaks estimate (snd answer)))
                                               (player_cache c1 a)
                                        else player_cache c1 a))))
                   else r = (Inr (), q @ [name], c1)
               | _ \<Rightarrow> r = (Inr (), q @ [name], c1))"
proof (cases player)
  case (Known k)
  show ?thesis
  proof (cases "is_missing_winstreaks k")
    case False
    then show ?thesis using assms Known by (simp add: get_stats_and_winstreak_def Let_def)
  next
    case True
    let ?answer = "winstreaks_provider w (calls c1) (uuid k)"
    let ?c2 = "record_call (Get_estimated_winstreaks (uuid k) ?answer) c1"
    show ?thesis
    proof (cases "fst ?answer")
      case MISSING_WINSTREAKS
      then show ?thesis using assms Known True
        by (cases ?answer)
           (simp add: get_stats_and_winstreak_def get_estimated_winstreaks_def Let_def)
    next
      case (Winstreaks estimate)
      let ?f = "update_winstreaks estimate (snd ?answer)"
      let ?c' = "fold (\<lambda>alias. update_cached_player alias ?f) (aliases k) ?c2"
      have r: "get_stats_and_winstreak w name q c = (Inr (), q @ [name, name], ?c')"
        using assms Known True Winstreaks
        by (cases ?answer)
           (simp add: get_stats_and_winstreak_def get_estimated_winstreaks_def Let_def)
      have "calls ?c' = calls c1 @ [Get_estimated_winstreaks (uuid k) ?answer]"
        by (simp add: record_call_def)
      then have n: "new_calls c1 ?c' = [Get_estimated_winstreaks (uuid k) ?answer]"
        by (simp add: new_calls_def)
      have "player_cache ?c' a =
              (if a \<in> set (aliases k) then map_option (on_known ?f) (player_cache c1 a)
               else player_cache c1 a)" for a
        using fold_update_cache [of ?f "aliases k" ?c2 a, OF update_winstreaks_idem]
        by (simp add: record_call_def)
      then show ?thesis using Known True Winstreaks r n by (simp add: Let_def)
    qed
  qed
next
  case (Nicked n)
  then show ?thesis using assms by (simp add: get_stats_and_winstreak_def Let_def)
next
  case (Pending n)
  then show ?thesis using get_bedwars_stats_not_pending [OF assms] by (simp add: is_pending_def)
qed


theorem winstreak_enrichment_witness:
  "fst (get_bedwars_stats estimating_world ''Steve'' steve_controller)
     = Inr (Known (create_known_player steve_data ''RealSteve'' ''u1'' (Some ''Steve'')))
   \<and> is_missing_winstreaks (create_known_player steve_data ''RealSteve'' ''u1'' (Some ''Steve''))
   \<and> get_stats_and_winstreak silent_world ''Ghost'' [] fresh_controller
       = (Inr (), [''Ghost''], snd (get_bedwars_stats silent_world ''Ghost'' fresh_controller))
   \<and> fst (get_stats_and_winstreak estimating_world ''Steve'' [] steve_controller) = Inr ()
   \<and> fst (snd (get_stats_and_winstreak estimating_world ''Steve'' [] steve_controller))
       = [''Steve'', ''Steve'']
   \<and> new_calls (snd (get_bedwars_stats estimating_world ''Steve'' steve_controller))
         (snd (snd (get_stats_and_winstreak estimating_world ''Steve'' [] steve_controller)))
       = [Get_estimated_winstreaks ''u1'' (Winstreaks (Some 7), False)]
   \<and> player_cache (snd (snd (get_stats_and_winstreak estimating_world ''Steve'' [] steve_controller)))
         ''RealSteve''
       = Some (Known ((create_known_player steve_data ''RealSteve'' ''u1'' None)
                        \<lparr>winstreak := Some 7, winstreak_accurate := False\<rparr>))
   \<and> player_cache (snd (snd (get_stats_and_winstreak estimating_world ''Steve'' [] steve_controller)))
         ''Steve''
       = Some (Known ((create_known_player steve_data ''RealSteve'' ''u1'' (Some ''Steve''))
                        \<lparr>winstreak := Some 7, winstreak_accurate := False\<rparr>))"
proof -
  let ?k = "create_known_player steve_data ''RealSteve'' ''u1'' (Some ''Steve'')"
  let ?c1 = "set_cached_player ''Steve'' (Known ?k)
               (set_cached_player ''RealSteve'' (Known (?k\<lparr>nick := None\<rparr>))
                  (steve_controller
                     \<lparr>calls := [Get_uuid ''Steve'' None, Get_default ''Steve'' (Some ''u1''),
                                Get_player_data ''u1'' (Some steve_data)]\<rparr>))"
  have g: "get_bedwars_stats estimating_world ''Steve'' steve_controller = (Inr (Known ?k), ?c1)"
    by (simp add: get_bedwars_stats_def get_cached_player_def
        fetch_bedwars_stats_def lookup_identity_def fetch_playerdata_def denick_def
        provider_defs record_call_def estimating_world_def steve_controller_def steve_data_def
        scenario_defs create_known_player_def Let_def)
  let ?g = "snd (get_bedwars_stats silent_world ''Ghost'' fresh_controller)"
  have h: "get_bedwars_stats silent_world ''Ghost'' fresh_controller = (Inr (Nicked ''Ghost''), ?g)"
    by (simp add: get_bedwars_stats_def get_cached_player_def
        fetch_bedwars_stats_def lookup_identity_def denick_def provider_defs record_call_def
        silent_world_def scenario_defs Let_def)
  have m: "is_missing_winstreaks ?k"
    by (simp add: is_missing_winstreaks_def create_known_player_def steve_data_def)
  have a: "winstreaks_provider estimating_world (calls ?c1) (uuid ?k) = (Winstreaks (Some 7), False)"
    by (simp add: estimating_world_def constant_world_def)
  have u: "uuid ?k = ''u1''" "aliases ?k = [''RealSteve'', ''Steve'']"
    by (simp_all add: create_known_player_def aliases_def)
  have c: "player_cache ?c1 ''RealSteve'' = Some (Known (?k\<lparr>nick := None\<rparr>))"
      "player_cache ?c1 ''Steve'' = Some (Known ?k)"
    by (simp_all add: set_cached_player_def)
  have f: "on_known (update_winstreaks (Some 7) False) (Known (?k\<lparr>nick := None\<rparr>))
             = Known ((create_known_player steve_data ''RealSteve'' ''u1'' None)
                        \<lparr>winstreak := Some 7, winstreak_accurate := False\<rparr>)"
      "on_known (update_winstreaks (Some 7) False) (Known ?k)
             = Known (?k\<lparr>winstreak := Some 7, winstreak_accurate := False\<rparr>)"
    by (simp_all add: on_known_def update_winstreaks_def create_known_player_def steve_data_def)
  from winstreak_enrichment [OF h, of "[]"]
  have ghost: "get_stats_and_winstreak silent_world ''Ghost'' [] fresh_controller
                 = (Inr (), [''Ghost''], ?g)"
    by (simp add: Let_def)
  from winstreak_enrichment [OF g, of "[]"] m a u c f
  have steve: "fst (get_stats_and_winstreak estimating_world ''Steve'' [] steve_controller) = Inr ()
      \<and> fst (snd (get_stats_and_winstreak estimating_world ''Steve'' [] steve_controller))
          = [''Steve'', ''Steve'']
      \<and> new_calls ?c1
            (snd (snd (get_stats_and_winstreak estimating_world ''Steve'' [] steve_controller)))
          = [Get_estimated_winstreaks ''u1'' (Winstreaks (Some 7), False)]
      \<and> player_cache (snd (snd (get_stats_and_winstreak estimating_world ''Steve'' [] steve_controller)))
            ''RealSteve''
          = Some (Known ((create_known_player steve_data ''RealSteve'' ''u1'' None)
                        \<lparr>winstreak := Some 7, winstreak_accurate := False\<rparr>))
      \<and> player_cache (snd (snd (get_stats_and_winstreak estimating_world ''Steve'' [] steve_controller)))
            ''Steve''
          = Some (Known (?k\<lparr>winstreak := Some 7, winstreak_accurate := False\<rparr>))"
    by (simp add: Let_def)
  show ?thesis using g m ghost steve by simp
qed

section \<open>Nicked players of the sidelay\<close>

lemma nicked_key_after_known_key:
  "(np_username n \<in> party_members) = (ps_username s \<in> party_members) \<Longrightarrow>
   key_less (rate_stats party_members (Stats_Player s)) (rate_stats party_members (Stats_Nicked n))
   \<and> \<not> key_less (rate_stats party_members (Stats_Nicked n)) (rate_stats party_members (Stats_Player s))"
  by (simp add: key_less_def rate_stats_def NickedPlayer_nicked_def PlayerStats_nicked_def)

text \<open>
  C10. For every property name, so for each of stars, fkdr, wlr and winstreak,
  \<^verbatim>\<open>NickedPlayer.get_value\<close> is \<^verbatim>\<open>float("inf")\<close>; \<^verbatim>\<open>NickedPlayer.get_string\<close> is the
  username of the record for the name "username" and "unknown" for every other name. Every
  finite number, int or float, is smaller than the value of a nicked player, and so is every
  finite stat of a known player; among players on the same side of the party, the sort key
  of a nicked player comes after the sort key of a known one.
\<close>

theorem nicked_player_values:
  "NickedPlayer_get_value p name = FloatValue PosInf
   \<and> NickedPlayer_get_string p name
       = (if name = ''username'' then np_username p else ''unknown'')
   \<and> (finite_value v \<longrightarrow> py_less v (NickedPlayer_get_value p name) = Some True)
   \<and> (PlayerStats_get_value s name = Some v \<and> finite_value v \<longrightarrow>
        py_less v (NickedPlayer_get_value p name) = Some True)
   \<and> ((np_username p \<in> party_members) = (ps_username s \<in> party_members) \<longrightarrow>
        key_less (rate_stats party_members (Stats_Player s))
          (rate_stats party_members (Stats_Nicked p)))"
proof -
  have "finite_value v \<Longrightarrow> py_less v (FloatValue PosInf) = Some True"
    by (cases v rule: finite_value.cases) simp_all
  then show ?thesis
    using nicked_key_after_known_key [of p party_members s]
    by (simp add: NickedPlayer_get_value_def NickedPlayer_get_string_def)
qed

theorem nicked_player_values_witness:
  "NickedPlayer_get_value nicked_enemy ''fkdr'' = FloatValue PosInf
   \<and> NickedPlayer_get_string nicked_enemy ''fkdr'' = ''unknown''
   \<and> NickedPlayer_get_string nicked_enemy ''username'' = ''AmazingNick''
   \<and> PlayerStats_get_value known_enemy ''fkdr'' = Some (FloatValue (Finite 8))
   \<and> finite_value (FloatValue (Finite 8))
   \<and> py_less (FloatValue (Finite 8)) (NickedPlayer_get_value nicked_enemy ''fkdr'') = Some True
   \<and> (np_username nicked_enemy \<in> {''Me''}) = (ps_username known_enemy \<in> {''Me''})
   \<and> key_less (rate_stats {''Me''} (Stats_Player known_enemy))
         (rate_stats {''Me''} (Stats_Nicked nicked_enemy))"
  using nicked_player_values
    [of nicked_enemy "''fkdr''" "FloatValue (Finite 8)" known_enemy "{''Me''}"]
  by (simp add: nicked_enemy_def known_enemy_def PlayerStats_get_value_def
      NickedPlayer_get_string_def)

end
